theory Spec2Isabelle
  imports Complex_Main
begin

section \<open>Size classes and viewport widths\<close>

text \<open>
  The library passes one of the strings \<open>"small"\<close>, \<open>"medium"\<close>, \<open>"large"\<close> around; the
  TypeScript type is the union of the three literals.
\<close>

datatype sizeclass = Small | Medium | Large

text \<open>
  A width is a JavaScript \<open>number\<close>: a finite value, one of the two infinities, or NaN.
  Only comparisons are made on widths, and they are exact on doubles, so a finite double
  is modelled by the real it denotes.
\<close>

datatype jsnumber = NaN | NegInfinity | Finite real | Infinity

text \<open>The relational operators \<open><=\<close> and \<open><\<close> of JavaScript on numbers; any
  comparison with NaN is false.\<close>

fun number_le :: "jsnumber \<Rightarrow> jsnumber \<Rightarrow> bool" where
  "number_le NaN _ = False"
| "number_le _ NaN = False"
| "number_le NegInfinity _ = True"
| "number_le _ Infinity = True"
| "number_le (Finite a) (Finite b) = (a \<le> b)"
| "number_le (Finite _) NegInfinity = False"
| "number_le Infinity _ = False"

fun number_less :: "jsnumber \<Rightarrow> jsnumber \<Rightarrow> bool" where
  "number_less NaN _ = False"
| "number_less _ NaN = False"
| "number_less (Finite a) (Finite b) = (a < b)"
| "number_less NegInfinity NegInfinity = False"
| "number_less NegInfinity _ = True"
| "number_less Infinity _ = False"
| "number_less (Finite _) Infinity = True"
| "number_less (Finite _) NegInfinity = False"

text \<open>\<open>getViewportSizeName\<close>, the local function of \<open>onSizeClassChange\<close>.\<close>

definition getViewportSizeName :: "jsnumber \<Rightarrow> sizeclass" where
  "getViewportSizeName width =
     (if number_le width (Finite 600) then Small
      else if number_le width (Finite 800) then Medium
      else Large)"

section \<open>Values, errors and the page\<close>

text \<open>
  Values that can reach the library at run time. Functions are compared by identity, so a
  function value carries the identity of the function object.
\<close>

datatype jsvalue =
    JSUndefined | JSNull | JSBoolean bool | JSNumber jsnumber | JSString string
  | JSObject | JSFunction nat

fun typeof :: "jsvalue \<Rightarrow> string" where
  "typeof JSUndefined = ''undefined''"
| "typeof JSNull = ''object''"
| "typeof (JSBoolean _) = ''boolean''"
| "typeof (JSNumber _) = ''number''"
| "typeof (JSString _) = ''string''"
| "typeof JSObject = ''object''"
| "typeof (JSFunction _) = ''function''"

text \<open>What can be thrown: the two errors the library throws itself, and anything else a
  function passed to the library may throw.\<close>

datatype error = TypeError | RangeError | OtherError

text \<open>
  A DOM element: the identity of the element object, its tag, its \<open>id\<close> attribute (empty
  when absent), its \<open>src\<close> attribute and its child elements in document order. Text nodes
  hold no element and are left out.
\<close>

datatype node =
  Node (nodeId: nat) (tagName: string) (elemId: string) (src: "string option")
       (childNodes: "node list")

text \<open>
  The resize handler is a closure over \<open>callback\<close> and the variable
  \<open>currentViewportSize\<close>; nothing else refers to that variable, so the closure carries its
  value.
\<close>

record listener =
  callback :: nat
  currentViewportSize :: sizeclass

text \<open>
  The part of the page the library reads and writes: \<open>window.innerWidth\<close>,
  \<open>window.onresize\<close>, the trace of callback invocations (which function was called with
  which argument, oldest first), the elements attached to the document body, and the
  supply of identities for new element objects.
\<close>

record world =
  innerWidth :: jsnumber
  onresize :: "listener option"
  invocations :: "(nat \<times> sizeclass) list"
  body :: "node list"
  nextNode :: nat

section \<open>onSizeClassChange\<close>

text \<open>
  A call of a function the page passed in either returns or throws. The code of these
  functions belongs to the page, so what they do is a parameter: for the function with a
  given identity, called with a size class on a given page, whether the call returns or
  what it throws. A function that cannot be called without \<open>new\<close> (a class) throws a
  TypeError at every call. Apart from the outcome and the entry in the trace, the call
  leaves the page as it is.
\<close>

datatype outcome = Returned | Threw error

type_synonym behaviour = "nat \<Rightarrow> sizeclass \<Rightarrow> world \<Rightarrow> outcome"

text \<open>\<open>f(arg)\<close>: the call is recorded in the trace, and an exception of the function
  leaves the caller too.\<close>

definition call :: "behaviour \<Rightarrow> nat \<Rightarrow> sizeclass \<Rightarrow> world \<Rightarrow> (error + unit) \<times> world" where
  "call does f arg w =
     (case does f arg w of Returned \<Rightarrow> Inr () | Threw e \<Rightarrow> Inl e,
      w\<lparr>invocations := invocations w @ [(f, arg)]\<rparr>)"

text \<open>The callback is called before \<open>window.onresize\<close> is assigned: when the call
  throws, the assignment is never reached.\<close>

definition onSizeClassChange ::
    "behaviour \<Rightarrow> jsvalue \<Rightarrow> world \<Rightarrow> (error + unit) \<times> world" where
  "onSizeClassChange does cb w =
     (if typeof cb \<noteq> ''function'' then (Inl TypeError, w)
      else case cb of
        JSFunction f \<Rightarrow>
          let current = getViewportSizeName (innerWidth w) in
          (case call does f current w of
             (Inl e, w1) \<Rightarrow> (Inl e, w1)
           | (Inr _, w1) \<Rightarrow>
               (Inr (),
                w1\<lparr>onresize := Some \<lparr>callback = f, currentViewportSize = current\<rparr>\<rparr>))
      | _ \<Rightarrow> (Inl TypeError, w))"

text \<open>The function assigned to \<open>window.onresize\<close>, run with the closure \<open>l\<close>: the
  variable is assigned before the callback is called, so it keeps the new class also when
  the call throws.\<close>

definition resizeHandler :: "behaviour \<Rightarrow> listener \<Rightarrow> world \<Rightarrow> (error + unit) \<times> world" where
  "resizeHandler does l w =
     (let newViewportSize = getViewportSizeName (innerWidth w) in
      if newViewportSize \<noteq> currentViewportSize l then
        call does (callback l) newViewportSize
          (w\<lparr>onresize := Some (l\<lparr>currentViewportSize := newViewportSize\<rparr>)\<rparr>)
      else (Inr (), w))"

text \<open>A resize event: the viewport takes the new width, then the browser runs the
  handler stored in \<open>window.onresize\<close>, if there is one. An exception that leaves the
  handler is reported by the browser and goes no further.\<close>

definition resize :: "behaviour \<Rightarrow> jsnumber \<Rightarrow> world \<Rightarrow> world" where
  "resize does width w =
     (let w1 = w\<lparr>innerWidth := width\<rparr> in
      case onresize w1 of None \<Rightarrow> w1 | Some l \<Rightarrow> snd (resizeHandler does l w1))"

fun resizes :: "behaviour \<Rightarrow> jsnumber list \<Rightarrow> world \<Rightarrow> world" where
  "resizes does [] w = w"
| "resizes does (width # widths) w = resizes does widths (resize does width w)"

text \<open>Two behaviours: every function returns; the function \<open>g\<close> throws a RangeError at
  every call (as a callback does that hands \<open>generateGrid\<close> a list of the wrong length)
  and every other function returns.\<close>

definition returns :: behaviour where
  "returns f arg w = Returned"

definition throwsIn :: "nat \<Rightarrow> behaviour" where
  "throwsIn g f arg w = (if f = g then Threw RangeError else Returned)"

section \<open>generateGrid\<close>

text \<open>Markup as the HTML parser reads it: an element with its child elements.\<close>

datatype markup = Tag string "markup list"

abbreviation img :: markup where "img \<equiv> Tag ''img'' []"
abbreviation td :: "markup list \<Rightarrow> markup" where "td \<equiv> Tag ''td''"
abbreviation tr :: "markup list \<Rightarrow> markup" where "tr \<equiv> Tag ''tr''"

definition VIEWPORT_LARGE_TABLE :: "markup list" where
  "VIEWPORT_LARGE_TABLE =
     [tr [td [img], td [img], td [img], td [img]],
      tr [td [img], td [img], td [img], td [img]]]"

definition VIEWPORT_MEDIUM_TABLE :: "markup list" where
  "VIEWPORT_MEDIUM_TABLE =
     [tr [td [img], td [img]],
      tr [td [img], td [img]],
      tr [td [img], td [img]],
      tr [td [img], td [img]]]"

definition VIEWPORT_SMALL_TABLE :: "markup list" where
  "VIEWPORT_SMALL_TABLE =
     [tr [td [img]], tr [td [img]], tr [td [img]], tr [td [img]],
      tr [td [img]], tr [td [img]], tr [td [img]], tr [td [img]]]"

definition createElement :: "string \<Rightarrow> world \<Rightarrow> node \<times> world" where
  "createElement tag w =
     (Node (nextNode w) tag [] None [], w\<lparr>nextNode := Suc (nextNode w)\<rparr>)"

text \<open>Element objects for parsed markup, created in document order from the identity
  \<open>n\<close> on; the second component is the next unused identity.\<close>

fun build :: "markup \<Rightarrow> nat \<Rightarrow> node \<times> nat"
  and buildAll :: "markup list \<Rightarrow> nat \<Rightarrow> node list \<times> nat" where
  "build (Tag t ms) n =
     (let (kids, n') = buildAll ms (Suc n) in (Node n t [] None kids, n'))"
| "buildAll [] n = ([], n)"
| "buildAll (m # ms) n =
     (let (x, n1) = build m n; (xs, n2) = buildAll ms n1 in (x # xs, n2))"

text \<open>Inside a \<open>table\<close> the parser puts rows that come without a table section into an
  implied \<open>tbody\<close>.\<close>

definition inTable :: "markup list \<Rightarrow> markup list" where
  "inTable rows = (case rows of [] \<Rightarrow> [] | _ \<Rightarrow> [Tag ''tbody'' rows])"

text \<open>Assigning \<open>innerHTML\<close> of a table element.\<close>

definition setInnerHTML :: "markup list \<Rightarrow> node \<Rightarrow> world \<Rightarrow> node \<times> world" where
  "setInnerHTML html el w =
     (let (kids, n) = buildAll (inTable html) (nextNode w)
      in (Node (nodeId el) (tagName el) (elemId el) (src el) kids, w\<lparr>nextNode := n\<rparr>))"

text \<open>The descendants of an element in document order, and \<open>querySelectorAll\<close> with a
  tag selector.\<close>

fun descendants :: "node \<Rightarrow> node list" where
  "descendants (Node i t d s kids) = concat (map (\<lambda>k. k # descendants k) kids)"

definition querySelectorAll :: "node \<Rightarrow> string \<Rightarrow> node list" where
  "querySelectorAll el sel = filter (\<lambda>x. tagName x = sel) (descendants el)"

text \<open>\<open>imageUrls[i]\<close>: an index past the end reads \<open>undefined\<close>, which the \<open>src\<close> setter
  turns into the string \<open>"undefined"\<close>.\<close>

definition urlAt :: "string list \<Rightarrow> nat \<Rightarrow> string" where
  "urlAt imageUrls i = (if i < length imageUrls then imageUrls ! i else ''undefined'')"

text \<open>\<open>imageTag.src = v\<close> on the element object with identity \<open>a\<close>, seen from the root of
  the tree that holds it.\<close>

fun assignSrc :: "nat \<Rightarrow> string \<Rightarrow> node \<Rightarrow> node" where
  "assignSrc a v (Node i t d s kids) =
     Node i t d (if i = a then Some v else s) (map (assignSrc a v) kids)"

text \<open>The \<open>forEach\<close> over the images found: the \<open>i\<close>-th one gets \<open>imageUrls[i]\<close>.\<close>

fun forEachImage :: "string list \<Rightarrow> node list \<Rightarrow> nat \<Rightarrow> node \<Rightarrow> node" where
  "forEachImage imageUrls [] i grid = grid"
| "forEachImage imageUrls (imageTag # rest) i grid =
     forEachImage imageUrls rest (Suc i)
       (assignSrc (nodeId imageTag) (urlAt imageUrls i) grid)"

text \<open>\<open>el.id = v\<close>.\<close>

fun setId :: "string \<Rightarrow> node \<Rightarrow> node" where
  "setId v (Node i t d s kids) = Node i t v s kids"

definition generateGrid ::
    "string list \<Rightarrow> sizeclass \<Rightarrow> world \<Rightarrow> (error + node) \<times> world" where
  "generateGrid imageUrls sizeName w =
     (if length imageUrls \<noteq> 8 then (Inl RangeError, w)
      else
        let (imagesGrid, w1) = createElement ''table'' w;
            imagesGrid = setId ''imagesGrid'' imagesGrid;
            (imagesGrid, w2) =
              (if sizeName = Large then setInnerHTML VIEWPORT_LARGE_TABLE imagesGrid w1
               else if sizeName = Medium then setInnerHTML VIEWPORT_MEDIUM_TABLE imagesGrid w1
               else setInnerHTML VIEWPORT_SMALL_TABLE imagesGrid w1);
            imagesGrid =
              forEachImage imageUrls (querySelectorAll imagesGrid ''img'') 0 imagesGrid
        in (Inr imagesGrid, w2))"

text \<open>
  What a reader sees of a grid: its rows (the \<open>tr\<close> elements in document order), in
  each row its cells (the \<open>td\<close> elements), in each cell the \<open>src\<close> of every image.
\<close>

definition gridCells :: "node \<Rightarrow> string option list list list" where
  "gridCells grid =
     map (\<lambda>row. map (\<lambda>cell. map src (querySelectorAll cell ''img''))
                    (querySelectorAll row ''td''))
         (querySelectorAll grid ''tr'')"

text \<open>The structure of a tree without the identities of its element objects, and the
  identities alone.\<close>

datatype shape = Shape string string "string option" "shape list"

fun shapeOf :: "node \<Rightarrow> shape" where
  "shapeOf (Node i t d s kids) = Shape t d s (map shapeOf kids)"

fun nodeIds :: "node \<Rightarrow> nat set" where
  "nodeIds (Node i t d s kids) = insert i (\<Union>k \<in> set kids. nodeIds k)"

text \<open>The layout the size class stands for: the number of rows and of columns.\<close>

fun gridRows :: "sizeclass \<Rightarrow> nat" where
  "gridRows Small = 8" | "gridRows Medium = 4" | "gridRows Large = 2"

fun gridColumns :: "sizeclass \<Rightarrow> nat" where
  "gridColumns Small = 1" | "gridColumns Medium = 2" | "gridColumns Large = 4"

text \<open>Row-major binding: the grid has the rows and columns of the size class, and the
  cell in row \<open>r\<close> and column \<open>c\<close> holds one image, the one for the URL at index
  \<open>r * columns + c\<close>.\<close>

definition rowMajor :: "string list \<Rightarrow> sizeclass \<Rightarrow> string option list list list \<Rightarrow> bool" where
  "rowMajor imageUrls sizeName cells \<longleftrightarrow>
     length cells = gridRows sizeName \<and>
     (\<forall>r < gridRows sizeName.
        length (cells ! r) = gridColumns sizeName \<and>
        (\<forall>c < gridColumns sizeName.
           cells ! r ! c = [Some (imageUrls ! (r * gridColumns sizeName + c))]))"

text \<open>The function \<open>f\<close> is the one the resize handler calls, and the handler's
  \<open>currentViewportSize\<close> is the class of the latest notification in the trace.\<close>

definition listening :: "nat \<Rightarrow> world \<Rightarrow> bool" where
  "listening f w \<longleftrightarrow>
     invocations w \<noteq> [] \<and>
     onresize w = Some \<lparr>callback = f, currentViewportSize = snd (last (invocations w))\<rparr>"

text \<open>A page 1024 pixels wide on which nothing has happened yet.\<close>

definition blankPage :: world where
  "blankPage =
     \<lparr>innerWidth = Finite 1024, onresize = None, invocations = [], body = [], nextNode = 0\<rparr>"

section \<open>The presentation controller\<close>

text \<open>
  Modelled from the spec: the controller that tracks the image shown in the modal is
  written by the page that uses the library (the library only creates the modal, shows
  and hides it and registers the click handlers the page passes in), and that page is
  not part of the sources. The state is the one of section 3 of the specification.
\<close>

record presentation =
  isOpen :: bool
  currentIndex :: int

text \<open>Modelled from the spec: the events of the transition table of section 4.3, the
  handlers the page would register with \<open>addImageClickHandlers\<close> and \<open>initModal\<close>.\<close>

datatype event = CellClicked int | CloseActivated | PreviousActivated | NextActivated

text \<open>Modelled from the spec: the controller is created closed, with an index in [0,7].\<close>

definition initial :: "presentation \<Rightarrow> bool" where
  "initial p \<longleftrightarrow> \<not> isOpen p \<and> 0 \<le> currentIndex p \<and> currentIndex p \<le> 7"

text \<open>Modelled from the spec: a click comes from one of the eight cells, so it carries
  an index from 0 to 7; the three controls carry nothing.\<close>

fun offered :: "event \<Rightarrow> bool" where
  "offered (CellClicked i) = (0 \<le> i \<and> i \<le> 7)"
| "offered _ = True"

text \<open>Modelled from the spec: the transition table of section 4.3, row by row; the
  controls do nothing while the presentation is closed, and closing keeps the index.\<close>

fun transition :: "event \<Rightarrow> presentation \<Rightarrow> presentation" where
  "transition (CellClicked i) p = \<lparr>isOpen = True, currentIndex = i\<rparr>"
| "transition CloseActivated p = (if isOpen p then p\<lparr>isOpen := False\<rparr> else p)"
| "transition PreviousActivated p =
     (if isOpen p then p\<lparr>currentIndex := (currentIndex p - 1 + 8) mod 8\<rparr> else p)"
| "transition NextActivated p =
     (if isOpen p then p\<lparr>currentIndex := (currentIndex p + 1) mod 8\<rparr> else p)"

text \<open>Modelled from the spec: events are handled one after the other.\<close>

fun run :: "event list \<Rightarrow> presentation \<Rightarrow> presentation" where
  "run [] p = p"
| "run (e # es) p = run es (transition e p)"

section \<open>Facts about the grid\<close>

lemmas gen_defs = generateGrid_def createElement_def setInnerHTML_def inTable_def
  querySelectorAll_def urlAt_def gridCells_def
  VIEWPORT_LARGE_TABLE_def VIEWPORT_MEDIUM_TABLE_def VIEWPORT_SMALL_TABLE_def

lemma length8: "length xs = 8 \<Longrightarrow> \<exists>a b c d e f g h. xs = [a, b, c, d, e, f, g, h]"
  by (auto simp: numeral_eq_Suc length_Suc_conv)

lemma less_2_iff: "(r::nat) < 2 \<longleftrightarrow> r = 0 \<or> r = 1"
  by arith

lemma less_4_iff: "(r::nat) < 4 \<longleftrightarrow> r = 0 \<or> r = 1 \<or> r = 2 \<or> r = 3"
  by arith

lemma less_8_iff:
  "(r::nat) < 8 \<longleftrightarrow> r = 0 \<or> r = 1 \<or> r = 2 \<or> r = 3 \<or> r = 4 \<or> r = 5 \<or> r = 6 \<or> r = 7"
  by arith

lemma large_cells:
  "\<exists>grid w'. generateGrid [a, b, c, d, e, f, g, h] Large w = (Inr grid, w')
     \<and> gridCells grid = [[[Some a], [Some b], [Some c], [Some d]],
                         [[Some e], [Some f], [Some g], [Some h]]]"
  by (simp add: gen_defs)

lemma medium_cells:
  "\<exists>grid w'. generateGrid [a, b, c, d, e, f, g, h] Medium w = (Inr grid, w')
     \<and> gridCells grid = [[[Some a], [Some b]], [[Some c], [Some d]],
                         [[Some e], [Some f]], [[Some g], [Some h]]]"
  by (simp add: gen_defs)

lemma small_cells:
  "\<exists>grid w'. generateGrid [a, b, c, d, e, f, g, h] Small w = (Inr grid, w')
     \<and> gridCells grid = [[[Some a]], [[Some b]], [[Some c]], [[Some d]],
                         [[Some e]], [[Some f]], [[Some g]], [[Some h]]]"
  by (simp add: gen_defs)

lemma row_major_large:
  "rowMajor [a, b, c, d, e, f, g, h] Large
     [[[Some a], [Some b], [Some c], [Some d]], [[Some e], [Some f], [Some g], [Some h]]]"
  unfolding rowMajor_def by (auto simp: less_2_iff less_4_iff)

lemma row_major_medium:
  "rowMajor [a, b, c, d, e, f, g, h] Medium
     [[[Some a], [Some b]], [[Some c], [Some d]], [[Some e], [Some f]], [[Some g], [Some h]]]"
  unfolding rowMajor_def by (auto simp: less_2_iff less_4_iff)

lemma row_major_small:
  "rowMajor [a, b, c, d, e, f, g, h] Small
     [[[Some a]], [[Some b]], [[Some c]], [[Some d]],
      [[Some e]], [[Some f]], [[Some g]], [[Some h]]]"
  unfolding rowMajor_def by (auto simp: less_8_iff)

lemma generateGrid_cells:
  assumes "length imageUrls = 8"
  shows "\<exists>grid w'. generateGrid imageUrls sizeName w = (Inr grid, w')
           \<and> rowMajor imageUrls sizeName (gridCells grid)"
proof -
  from assms obtain a b c d e f g h where u: "imageUrls = [a, b, c, d, e, f, g, h]"
    using length8 by blast
  show ?thesis
  proof (cases sizeName)
    case Small
    from small_cells [of a b c d e f g h w] row_major_small [of a b c d e f g h]
    show ?thesis unfolding u Small by auto
  next
    case Medium
    from medium_cells [of a b c d e f g h w] row_major_medium [of a b c d e f g h]
    show ?thesis unfolding u Medium by auto
  next
    case Large
    from large_cells [of a b c d e f g h w] row_major_large [of a b c d e f g h]
    show ?thesis unfolding u Large by auto
  qed
qed

lemma generateGrid_returns:
  "length imageUrls = 8 \<Longrightarrow> \<exists>grid w'. generateGrid imageUrls sizeName w = (Inr grid, w')"
  by (simp add: generateGrid_def Let_def split: prod.splits)

lemma generateGrid_throws:
  "length imageUrls \<noteq> 8 \<Longrightarrow> generateGrid imageUrls sizeName w = (Inl RangeError, w)"
  by (simp add: generateGrid_def)

text \<open>The identities handed out while markup is built lie between the first one and the
  next unused one.\<close>

lemma build_ids:
  "build m n = (x, n') \<Longrightarrow> n < n' \<and> nodeIds x \<subseteq> {n..<n'}"
  "buildAll ms n = (xs, n') \<Longrightarrow> n \<le> n' \<and> (\<forall>x \<in> set xs. nodeIds x \<subseteq> {n..<n'})"
proof (induction m n and ms n arbitrary: x n' and xs n' rule: build_buildAll.induct)
  case (1 t ms n)
  obtain kids k where b: "buildAll ms (Suc n) = (kids, k)"
    by (cases "buildAll ms (Suc n)")
  from "1.IH" [OF b] have "Suc n \<le> k" and "\<forall>x \<in> set kids. nodeIds x \<subseteq> {Suc n..<k}"
    by simp_all
  moreover from "1.prems" b have "x = Node n t [] None kids" and "n' = k"
    by simp_all
  ultimately show ?case by fastforce
next
  case (2 n)
  then show ?case by simp
next
  case (3 m ms n)
  obtain y n1 where b1: "build m n = (y, n1)"
    by (cases "build m n")
  obtain ys n2 where b2: "buildAll ms n1 = (ys, n2)"
    by (cases "buildAll ms n1")
  from "3.IH"(1) [OF b1] have h1: "n < n1" "nodeIds y \<subseteq> {n..<n1}"
    by simp_all
  from "3.IH"(2) [OF b1 [symmetric] refl b2]
  have h2: "n1 \<le> n2" "\<forall>x \<in> set ys. nodeIds x \<subseteq> {n1..<n2}"
    by simp_all
  from "3.prems" b1 b2 have e: "xs = y # ys" "n' = n2"
    by simp_all
  from h1 h2 show ?case unfolding e by fastforce
qed

lemma assignSrc_ids: "nodeIds (assignSrc a v g) = nodeIds g"
  by (induction g) simp

lemma forEachImage_ids: "nodeIds (forEachImage urls imgs i g) = nodeIds g"
  by (induction imgs arbitrary: i g) (simp_all add: assignSrc_ids)

lemma generateGrid_fresh:
  assumes "generateGrid imageUrls sizeName w = (Inr grid, w')"
  shows "nodeIds grid \<subseteq> {nextNode w..<nextNode w'}" and "w' = w\<lparr>nextNode := nextNode w'\<rparr>"
proof -
  define html where "html = (if sizeName = Large then VIEWPORT_LARGE_TABLE
     else if sizeName = Medium then VIEWPORT_MEDIUM_TABLE else VIEWPORT_SMALL_TABLE)"
  obtain kids k where b: "buildAll (inTable html) (Suc (nextNode w)) = (kids, k)"
    by (cases "buildAll (inTable html) (Suc (nextNode w))")
  from assms have len: "length imageUrls = 8"
    by (auto simp: generateGrid_def split: if_splits)
  let ?t = "Node (nextNode w) ''table'' ''imagesGrid'' None kids"
  from assms len b have g: "grid = forEachImage imageUrls (querySelectorAll ?t ''img'') 0 ?t"
    and w': "w' = w\<lparr>nextNode := k\<rparr>"
    by (auto simp: generateGrid_def createElement_def setInnerHTML_def html_def
        split: if_splits)
  from build_ids(2) [OF b] have "Suc (nextNode w) \<le> k"
    and "\<forall>x \<in> set kids. nodeIds x \<subseteq> {Suc (nextNode w)..<k}"
    by simp_all
  then have "nodeIds ?t \<subseteq> {nextNode w..<k}"
    by fastforce
  then show "nodeIds grid \<subseteq> {nextNode w..<nextNode w'}"
    unfolding g w' by (simp add: forEachImage_ids)
  show "w' = w\<lparr>nextNode := nextNode w'\<rparr>"
    unfolding w' by simp
qed

text \<open>The structure built does not depend on the page it is built on.\<close>

lemma generateGrid_shape:
  "shapeOf (projr (fst (generateGrid [a, b, c, d, e, f, g, h] s w))) =
   shapeOf (projr (fst (generateGrid [a, b, c, d, e, f, g, h] s w')))"
  by (cases s) (simp_all add: gen_defs)

section \<open>Facts about the watcher\<close>

lemma typeof_function: "typeof cb = ''function'' \<longleftrightarrow> (\<exists>f. cb = JSFunction f)"
  by (cases cb) simp_all

lemma registration_throws:
  "typeof cb \<noteq> ''function'' \<Longrightarrow> onSizeClassChange does cb w = (Inl TypeError, w)"
  by (simp add: onSizeClassChange_def)

text \<open>A call with a function: one entry more in the trace in either case; the listener
  is installed when the callback returned and untouched when it threw.\<close>

lemma registration:
  "onSizeClassChange does (JSFunction f) w =
     (case does f (getViewportSizeName (innerWidth w)) w of
        Returned \<Rightarrow>
          (Inr (),
           w\<lparr>invocations := invocations w @ [(f, getViewportSizeName (innerWidth w))],
              onresize := Some \<lparr>callback = f,
                                currentViewportSize = getViewportSizeName (innerWidth w)\<rparr>\<rparr>)
      | Threw e \<Rightarrow>
          (Inl e,
           w\<lparr>invocations := invocations w @ [(f, getViewportSizeName (innerWidth w))]\<rparr>))"
  by (simp add: onSizeClassChange_def call_def Let_def split: outcome.splits)

lemma registration_returned:
  assumes "fst (onSizeClassChange does (JSFunction f) w) = Inr ()"
  shows "snd (onSizeClassChange does (JSFunction f) w) =
     w\<lparr>invocations := invocations w @ [(f, getViewportSizeName (innerWidth w))],
        onresize := Some \<lparr>callback = f,
                          currentViewportSize = getViewportSizeName (innerWidth w)\<rparr>\<rparr>"
  using assms by (simp add: registration split: outcome.splits)

lemma registration_threw:
  assumes "fst (onSizeClassChange does (JSFunction f) w) \<noteq> Inr ()"
  shows "snd (onSizeClassChange does (JSFunction f) w) =
     w\<lparr>invocations := invocations w @ [(f, getViewportSizeName (innerWidth w))]\<rparr>"
  using assms by (simp add: registration split: outcome.splits)

lemma listening_registered:
  "fst (onSizeClassChange does (JSFunction f) w) = Inr () \<Longrightarrow>
     listening f (snd (onSizeClassChange does (JSFunction f) w))"
  by (simp add: registration_returned listening_def)

lemma resize_listening:
  assumes "listening f w"
  shows "invocations (resize does width w) =
           invocations w @
             (if getViewportSizeName width \<noteq> snd (last (invocations w))
              then [(f, getViewportSizeName width)] else [])"
    and "listening f (resize does width w)"
  using assms by (auto simp: listening_def resize_def resizeHandler_def call_def Let_def)

lemma resizes_listening:
  assumes "listening f w"
  shows "listening f (resizes does widths w) \<and>
         (\<exists>new. invocations (resizes does widths w) = invocations w @ new \<and>
                 distinct_adj (map snd (last (invocations w) # new)))"
  using assms
proof (induction widths arbitrary: w)
  case Nil
  then show ?case by simp
next
  case (Cons width widths)
  let ?w1 = "resize does width w"
  from resize_listening [OF Cons.prems, of does width]
  have i1: "invocations ?w1 = invocations w @
             (if getViewportSizeName width \<noteq> snd (last (invocations w))
              then [(f, getViewportSizeName width)] else [])"
    and l1: "listening f ?w1"
    by simp_all
  from Cons.IH [OF l1] obtain new where
    l2: "listening f (resizes does widths ?w1)"
    and i2: "invocations (resizes does widths ?w1) = invocations ?w1 @ new"
    and d2: "distinct_adj (map snd (last (invocations ?w1) # new))"
    by blast
  show ?case
  proof (cases "getViewportSizeName width \<noteq> snd (last (invocations w))")
    case True
    with i1 i2 d2 l2 show ?thesis
      by (intro conjI exI [of _ "(f, getViewportSizeName width) # new"]) auto
  next
    case False
    with i1 i2 d2 l2 show ?thesis
      by (intro conjI exI [of _ new]) auto
  qed
qed

text \<open>Resize events call the function of the installed handler and no other, and leave
  that handler installed.\<close>

lemma resize_installed:
  assumes "map_option callback (onresize w) = Some f"
  shows "map_option callback (onresize (resize does width w)) = Some f \<and>
         (\<exists>new. invocations (resize does width w) = invocations w @ new \<and>
                 (\<forall>(c, s) \<in> set new. c = f))"
  using assms by (auto simp: resize_def resizeHandler_def call_def Let_def)

lemma resizes_installed:
  assumes "map_option callback (onresize w) = Some f"
  shows "map_option callback (onresize (resizes does widths w)) = Some f \<and>
         (\<exists>new. invocations (resizes does widths w) = invocations w @ new \<and>
                 (\<forall>(c, s) \<in> set new. c = f))"
  using assms
proof (induction widths arbitrary: w)
  case Nil
  then show ?case by simp
next
  case (Cons width widths)
  from resize_installed [OF Cons.prems, of does width] obtain new1 where
    k1: "map_option callback (onresize (resize does width w)) = Some f"
    and i1: "invocations (resize does width w) = invocations w @ new1"
    and c1: "\<forall>(c, s) \<in> set new1. c = f"
    by blast
  from Cons.IH [OF k1] obtain new2 where
    k2: "map_option callback (onresize (resizes does widths (resize does width w))) = Some f"
    and i2: "invocations (resizes does widths (resize does width w))
               = invocations (resize does width w) @ new2"
    and c2: "\<forall>(c, s) \<in> set new2. c = f"
    by blast
  from k2 i1 i2 c1 c2 show ?case
    by (intro conjI exI [of _ "new1 @ new2"]) auto
qed

section \<open>Facts about the presentation controller\<close>

lemma transition_in_range:
  assumes "offered e" and "0 \<le> currentIndex p \<and> currentIndex p \<le> 7"
  shows "0 \<le> currentIndex (transition e p) \<and> currentIndex (transition e p) \<le> 7"
  using assms by (cases e) auto

lemma run_in_range:
  assumes "list_all offered es" and "0 \<le> currentIndex p \<and> currentIndex p \<le> 7"
  shows "0 \<le> currentIndex (run es p) \<and> currentIndex (run es p) \<le> 7"
  using assms
proof (induction es arbitrary: p)
  case Nil
  then show ?case by simp
next
  case (Cons e es)
  from Cons.prems have "offered e" and rest: "list_all offered es"
    by simp_all
  from transition_in_range [OF \<open>offered e\<close> Cons.prems(2)] Cons.IH [OF rest]
  show ?case by simp
qed

section \<open>The claims\<close>

text \<open>
  C1. For every list of exactly 8 URLs and every size class, \<open>generateGrid\<close> returns a
  grid whose shape depends on the size class alone (small: 8 rows of 1 column, medium: 4
  rows of 2, large: 2 rows of 4), and the cell in row \<open>r\<close> and column \<open>c\<close> holds exactly
  one image, the one for the URL at index \<open>r * columns + c\<close> (row-major order). In
  particular the URLs \<open>a\<close> to \<open>h\<close> in the large layout give the rows \<open>a b c d\<close> and
  \<open>e f g h\<close>.
\<close>

theorem generateGrid_row_major:
  "(length imageUrls = 8 \<longrightarrow>
      (\<exists>grid w'. generateGrid imageUrls sizeName w = (Inr grid, w') \<and>
         length (gridCells grid) = gridRows sizeName \<and>
         (\<forall>r < gridRows sizeName.
            length (gridCells grid ! r) = gridColumns sizeName \<and>
            (\<forall>c < gridColumns sizeName.
               gridCells grid ! r ! c =
                 [Some (imageUrls ! (r * gridColumns sizeName + c))]))))
   \<and> (gridRows Small, gridColumns Small) = (8, 1)
   \<and> (gridRows Medium, gridColumns Medium) = (4, 2)
   \<and> (gridRows Large, gridColumns Large) = (2, 4)
   \<and> (\<exists>grid w'.
         generateGrid [''a'', ''b'', ''c'', ''d'', ''e'', ''f'', ''g'', ''h''] Large w
           = (Inr grid, w') \<and>
         gridCells grid =
           [[[Some ''a''], [Some ''b''], [Some ''c''], [Some ''d'']],
            [[Some ''e''], [Some ''f''], [Some ''g''], [Some ''h'']]])"
proof -
  have "length imageUrls = 8 \<Longrightarrow>
      \<exists>grid w'. generateGrid imageUrls sizeName w = (Inr grid, w') \<and>
         length (gridCells grid) = gridRows sizeName \<and>
         (\<forall>r < gridRows sizeName.
            length (gridCells grid ! r) = gridColumns sizeName \<and>
            (\<forall>c < gridColumns sizeName.
               gridCells grid ! r ! c =
                 [Some (imageUrls ! (r * gridColumns sizeName + c))]))"
    using generateGrid_cells [of imageUrls sizeName w] unfolding rowMajor_def by simp
  moreover note large_cells [of "''a''" "''b''" "''c''" "''d''" "''e''" "''f''" "''g''" "''h''" w]
  ultimately show ?thesis by simp
qed

theorem generateGrid_row_major_witness:
  "length [''1.jpg'', ''2.jpg'', ''3.jpg'', ''4.jpg'', ''5.jpg'', ''6.jpg'', ''7.jpg'', ''8.jpg'']
     = 8
   \<and> (\<exists>grid w'.
        generateGrid
          [''1.jpg'', ''2.jpg'', ''3.jpg'', ''4.jpg'', ''5.jpg'', ''6.jpg'', ''7.jpg'', ''8.jpg'']
          Medium blankPage = (Inr grid, w') \<and>
        gridCells grid =
          [[[Some ''1.jpg''], [Some ''2.jpg'']], [[Some ''3.jpg''], [Some ''4.jpg'']],
           [[Some ''5.jpg''], [Some ''6.jpg'']], [[Some ''7.jpg''], [Some ''8.jpg'']]])"
  using generateGrid_row_major
    [of "[''1.jpg'', ''2.jpg'', ''3.jpg'', ''4.jpg'', ''5.jpg'', ''6.jpg'', ''7.jpg'', ''8.jpg'']"
        Medium blankPage]
    medium_cells [of "''1.jpg''" "''2.jpg''" "''3.jpg''" "''4.jpg''" "''5.jpg''" "''6.jpg''"
        "''7.jpg''" "''8.jpg''" blankPage]
  by simp

text \<open>
  C2. The classification of widths: a width of at most 600 is small, a width above 600 and
  at most 800 is medium, a width above 800 is large; 600 itself is small and 800 itself is
  medium. The function is a total function of the width alone.
\<close>

theorem getViewportSizeName_bands:
  "(number_le width (Finite 600) \<longrightarrow> getViewportSizeName width = Small)
   \<and> (number_less (Finite 600) width \<and> number_le width (Finite 800) \<longrightarrow>
        getViewportSizeName width = Medium)
   \<and> (number_less (Finite 800) width \<longrightarrow> getViewportSizeName width = Large)
   \<and> getViewportSizeName (Finite 600) = Small
   \<and> getViewportSizeName (Finite 800) = Medium"
  by (cases width) (simp_all add: getViewportSizeName_def)

theorem getViewportSizeName_bands_witness:
  "number_le (Finite 320) (Finite 600) \<and> getViewportSizeName (Finite 320) = Small
   \<and> number_less (Finite 600) (Finite 601) \<and> number_le (Finite 601) (Finite 800)
   \<and> getViewportSizeName (Finite 601) = Medium
   \<and> number_less (Finite 800) (Finite 1920) \<and> getViewportSizeName (Finite 1920) = Large"
  using getViewportSizeName_bands [of "Finite 320"] getViewportSizeName_bands [of "Finite 601"]
    getViewportSizeName_bands [of "Finite 1920"]
  by simp

text \<open>
  C3. \<open>generateGrid\<close> throws a RangeError exactly when the list of URLs does not have 8
  elements (7 or 9, for example); when it throws, no grid is returned and no element has
  been created: the page is as before. With 8 elements it returns a grid.
\<close>

theorem generateGrid_RangeError_iff:
  "(fst (generateGrid imageUrls sizeName w) = Inl RangeError \<longleftrightarrow> length imageUrls \<noteq> 8)
   \<and> (length imageUrls \<noteq> 8 \<longrightarrow>
        generateGrid imageUrls sizeName w = (Inl RangeError, w))
   \<and> (length imageUrls = 8 \<longrightarrow>
        (\<exists>grid w'. generateGrid imageUrls sizeName w = (Inr grid, w')))"
  using generateGrid_returns [of imageUrls sizeName w]
    generateGrid_throws [of imageUrls sizeName w]
  by (cases "length imageUrls = 8") auto

theorem generateGrid_RangeError_iff_witness:
  "length [''a'', ''b'', ''c'', ''d'', ''e'', ''f'', ''g''] \<noteq> 8
   \<and> generateGrid [''a'', ''b'', ''c'', ''d'', ''e'', ''f'', ''g''] Large blankPage
       = (Inl RangeError, blankPage)
   \<and> length [''a'', ''b'', ''c'', ''d'', ''e'', ''f'', ''g'', ''h'', ''i''] \<noteq> 8
   \<and> generateGrid [''a'', ''b'', ''c'', ''d'', ''e'', ''f'', ''g'', ''h'', ''i''] Small blankPage
       = (Inl RangeError, blankPage)
   \<and> length [''a'', ''b'', ''c'', ''d'', ''e'', ''f'', ''g'', ''h''] = 8
   \<and> fst (generateGrid [''a'', ''b'', ''c'', ''d'', ''e'', ''f'', ''g'', ''h''] Small blankPage)
       \<noteq> Inl RangeError"
  using generateGrid_RangeError_iff [of "[''a'', ''b'', ''c'', ''d'', ''e'', ''f'', ''g'']" Large blankPage]
    generateGrid_RangeError_iff
      [of "[''a'', ''b'', ''c'', ''d'', ''e'', ''f'', ''g'', ''h'', ''i'']" Small blankPage]
    generateGrid_RangeError_iff
      [of "[''a'', ''b'', ''c'', ''d'', ''e'', ''f'', ''g'', ''h'']" Small blankPage]
  by simp

text \<open>
  C4. In the presentation controller, "previous" in \<open>Open(i)\<close> leads to
  \<open>Open((i - 1 + 8) mod 8)\<close> and "next" to \<open>Open((i + 1) mod 8)\<close>, so "previous" from
  \<open>Open(0)\<close> gives \<open>Open(7)\<close> and "next" from \<open>Open(7)\<close> gives \<open>Open(0)\<close>; in every
  state reached from an initial state by the events of the table, the current index is
  between 0 and 7.
\<close>

theorem navigation_wraps_in_range:
  "transition PreviousActivated \<lparr>isOpen = True, currentIndex = i\<rparr>
     = \<lparr>isOpen = True, currentIndex = (i - 1 + 8) mod 8\<rparr>
   \<and> transition NextActivated \<lparr>isOpen = True, currentIndex = i\<rparr>
     = \<lparr>isOpen = True, currentIndex = (i + 1) mod 8\<rparr>
   \<and> transition PreviousActivated \<lparr>isOpen = True, currentIndex = 0\<rparr>
     = \<lparr>isOpen = True, currentIndex = 7\<rparr>
   \<and> transition NextActivated \<lparr>isOpen = True, currentIndex = 7\<rparr>
     = \<lparr>isOpen = True, currentIndex = 0\<rparr>
   \<and> (initial p \<and> list_all offered es \<longrightarrow>
        0 \<le> currentIndex (run es p) \<and> currentIndex (run es p) \<le> 7)"
  using run_in_range [of es p] by (simp add: initial_def)

theorem navigation_wraps_in_range_witness:
  "initial \<lparr>isOpen = False, currentIndex = 0\<rparr>
   \<and> list_all offered [CellClicked 0, PreviousActivated, NextActivated, NextActivated, CloseActivated]
   \<and> run [CellClicked 0, PreviousActivated] \<lparr>isOpen = False, currentIndex = 0\<rparr>
       = \<lparr>isOpen = True, currentIndex = 7\<rparr>
   \<and> run [CellClicked 0, PreviousActivated, NextActivated] \<lparr>isOpen = False, currentIndex = 0\<rparr>
       = \<lparr>isOpen = True, currentIndex = 0\<rparr>
   \<and> 0 \<le> currentIndex (run [CellClicked 0, PreviousActivated, NextActivated, NextActivated, CloseActivated]
              \<lparr>isOpen = False, currentIndex = 0\<rparr>)
   \<and> currentIndex (run [CellClicked 0, PreviousActivated, NextActivated, NextActivated, CloseActivated]
              \<lparr>isOpen = False, currentIndex = 0\<rparr>) \<le> 7"
  using navigation_wraps_in_range [of 0 "\<lparr>isOpen = False, currentIndex = 0\<rparr>"
      "[CellClicked 0, PreviousActivated, NextActivated, NextActivated, CloseActivated]"]
  by (simp add: initial_def)

text \<open>
  C5. After a registration (a call of \<open>onSizeClassChange\<close> that returned), a resize event
  invokes the callback only when the class of the new width differs from the class of the
  latest notification, and then once, with the new class, whether or not the callback
  throws in the handler; so the classes notified since the registration never repeat one
  after the other. When the page starts at a small width, the widths 500, 550, 700, 750,
  900 cause exactly two notifications after the initial one: medium (at 700) and large
  (at 900).
\<close>

theorem resize_notifies_on_change_only:
  "fst (onSizeClassChange does (JSFunction f) w) = Inr () \<longrightarrow>
     invocations (resizes does widths (snd (onSizeClassChange does (JSFunction f) w))) \<noteq> []
     \<and> invocations
          (resize does width
             (resizes does widths (snd (onSizeClassChange does (JSFunction f) w))))
         = invocations (resizes does widths (snd (onSizeClassChange does (JSFunction f) w))) @
             (if getViewportSizeName width \<noteq>
                   snd (last (invocations
                     (resizes does widths (snd (onSizeClassChange does (JSFunction f) w)))))
              then [(f, getViewportSizeName width)] else [])
     \<and> distinct_adj (map snd (drop (length (invocations w))
           (invocations (resizes does widths (snd (onSizeClassChange does (JSFunction f) w))))))
     \<and> (number_le (innerWidth w) (Finite 600) \<longrightarrow>
          invocations
            (resizes does [Finite 500, Finite 550, Finite 700, Finite 750, Finite 900]
               (snd (onSizeClassChange does (JSFunction f) w)))
            = invocations w @ [(f, Small)] @ [(f, Medium), (f, Large)])"
proof
  assume ok: "fst (onSizeClassChange does (JSFunction f) w) = Inr ()"
  let ?w1 = "snd (onSizeClassChange does (JSFunction f) w)"
  let ?w2 = "resizes does widths ?w1"
  have l1: "listening f ?w1"
    using ok by (rule listening_registered)
  from resizes_listening [OF l1, of does widths] obtain new where
    l2: "listening f ?w2"
    and i2: "invocations ?w2 = invocations ?w1 @ new"
    and d2: "distinct_adj (map snd (last (invocations ?w1) # new))"
    by blast
  note w1 = registration_returned [OF ok]
  have i1: "invocations ?w1 = invocations w @ [(f, getViewportSizeName (innerWidth w))]"
    by (simp add: w1)
  from l2 have a: "invocations ?w2 \<noteq> []"
    by (simp add: listening_def)
  note b = resize_listening(1) [OF l2, of does width]
  from d2 have c: "distinct_adj (map snd (drop (length (invocations w)) (invocations ?w2)))"
    unfolding i2 i1 by simp
  have d: "number_le (innerWidth w) (Finite 600) \<Longrightarrow>
        invocations
          (resizes does [Finite 500, Finite 550, Finite 700, Finite 750, Finite 900] ?w1)
          = invocations w @ [(f, Small)] @ [(f, Medium), (f, Large)]"
    by (simp add: w1 resize_def resizeHandler_def call_def getViewportSizeName_def)
  from a b c d
  show "invocations ?w2 \<noteq> []
     \<and> invocations (resize does width ?w2)
         = invocations ?w2 @
             (if getViewportSizeName width \<noteq> snd (last (invocations ?w2))
              then [(f, getViewportSizeName width)] else [])
     \<and> distinct_adj (map snd (drop (length (invocations w)) (invocations ?w2)))
     \<and> (number_le (innerWidth w) (Finite 600) \<longrightarrow>
          invocations
            (resizes does [Finite 500, Finite 550, Finite 700, Finite 750, Finite 900] ?w1)
            = invocations w @ [(f, Small)] @ [(f, Medium), (f, Large)])"
    by blast
qed

theorem resize_notifies_on_change_only_witness:
  "fst (onSizeClassChange returns (JSFunction 1) (blankPage\<lparr>innerWidth := Finite 480\<rparr>))
     = Inr ()
   \<and> number_le (innerWidth (blankPage\<lparr>innerWidth := Finite 480\<rparr>)) (Finite 600)
   \<and> invocations
       (resizes returns [Finite 500, Finite 550, Finite 700, Finite 750, Finite 900]
          (snd (onSizeClassChange returns (JSFunction 1)
                  (blankPage\<lparr>innerWidth := Finite 480\<rparr>))))
       = [(1, Small), (1, Medium), (1, Large)]"
  using resize_notifies_on_change_only
    [of returns 1 "blankPage\<lparr>innerWidth := Finite 480\<rparr>" "[]" "Finite 0"]
  by (simp add: registration returns_def blankPage_def)

text \<open>
  C6. Every call of \<open>onSizeClassChange\<close> with a function invokes that function exactly once
  before the call is over, with the class of the current width of the viewport, whatever
  happened on the page before; the call of \<open>onSizeClassChange\<close> returns when the callback
  returns and throws what the callback throws.
\<close>

theorem registration_notifies_once:
  "typeof cb = ''function'' \<longrightarrow>
     (\<exists>f r w'. cb = JSFunction f \<and> onSizeClassChange does cb w = (r, w') \<and>
        invocations w' = invocations w @ [(f, getViewportSizeName (innerWidth w))] \<and>
        r = (case does f (getViewportSizeName (innerWidth w)) w of
               Returned \<Rightarrow> Inr () | Threw e \<Rightarrow> Inl e))"
  by (auto simp: typeof_function registration split: outcome.splits)

theorem registration_notifies_once_witness:
  "typeof (JSFunction 2) = ''function''
   \<and> invocations
       (resizes (throwsIn 2) [Finite 700, Finite 900]
          (snd (onSizeClassChange (throwsIn 2) (JSFunction 1) blankPage)))
       = [(1, Large), (1, Medium), (1, Large)]
   \<and> onSizeClassChange (throwsIn 2) (JSFunction 2)
        (resizes (throwsIn 2) [Finite 700, Finite 900]
           (snd (onSizeClassChange (throwsIn 2) (JSFunction 1) blankPage)))
       = (Inl RangeError,
          (resizes (throwsIn 2) [Finite 700, Finite 900]
             (snd (onSizeClassChange (throwsIn 2) (JSFunction 1) blankPage)))
          \<lparr>invocations := [(1, Large), (1, Medium), (1, Large), (2, Large)]\<rparr>)
   \<and> invocations
       (snd (onSizeClassChange returns (JSFunction 2)
          (resizes returns [Finite 700, Finite 900]
             (snd (onSizeClassChange returns (JSFunction 1) blankPage)))))
       = [(1, Large), (1, Medium), (1, Large), (2, Large)]"
  using registration_notifies_once [of "JSFunction 2" "throwsIn 2"
      "resizes (throwsIn 2) [Finite 700, Finite 900]
         (snd (onSizeClassChange (throwsIn 2) (JSFunction 1) blankPage))"]
    registration_notifies_once [of "JSFunction 2" returns
      "resizes returns [Finite 700, Finite 900]
         (snd (onSizeClassChange returns (JSFunction 1) blankPage))"]
  by (simp add: registration resize_def resizeHandler_def call_def getViewportSizeName_def
      returns_def throwsIn_def blankPage_def)

text \<open>
  C7. An error thrown by the library leaves the page as it was: \<open>onSizeClassChange\<close> with an
  argument that is not a function throws a TypeError, \<open>generateGrid\<close> with a list that does
  not have 8 elements throws a RangeError, and in both cases the resize listener, the
  trace, the document and the elements created so far are unchanged.
\<close>

theorem errors_leave_page_unchanged:
  "(typeof cb \<noteq> ''function'' \<longrightarrow> onSizeClassChange does cb w = (Inl TypeError, w))
   \<and> (length imageUrls \<noteq> 8 \<longrightarrow> generateGrid imageUrls sizeName w = (Inl RangeError, w))"
  using registration_throws [of cb does w] generateGrid_throws [of imageUrls sizeName w]
  by blast

theorem errors_leave_page_unchanged_witness:
  "typeof (JSString ''notify'') \<noteq> ''function''
   \<and> onSizeClassChange returns (JSString ''notify'')
        (snd (onSizeClassChange returns (JSFunction 1) blankPage))
       = (Inl TypeError, snd (onSizeClassChange returns (JSFunction 1) blankPage))
   \<and> length [''a'', ''b'', ''c''] \<noteq> 8
   \<and> generateGrid [''a'', ''b'', ''c''] Medium
        (snd (onSizeClassChange returns (JSFunction 1) blankPage))
       = (Inl RangeError, snd (onSizeClassChange returns (JSFunction 1) blankPage))"
  using errors_leave_page_unchanged [of "JSString ''notify''" returns
      "snd (onSizeClassChange returns (JSFunction 1) blankPage)" "[''a'', ''b'', ''c'']" Medium]
  by simp

text \<open>
  C8. The watcher keeps one callback. After two calls of \<open>onSizeClassChange\<close>, whatever
  resize events came between the two: when the second call returned, its handler has
  replaced the one in \<open>window.onresize\<close> and every later resize event invokes the second
  function only; when the second call threw (its callback threw at the initial
  notification), nothing was registered by it, the handler of the first registration is
  still the one in \<open>window.onresize\<close> and every later resize event invokes the first
  function only. In no case are there two listeners.
\<close>

theorem last_registration_wins:
  "(fst (onSizeClassChange does (JSFunction f2)
           (resizes does earlier (snd (onSizeClassChange does (JSFunction f1) w)))) = Inr ()
    \<longrightarrow>
      (\<exists>new.
         invocations (resizes does later (snd (onSizeClassChange does (JSFunction f2)
            (resizes does earlier (snd (onSizeClassChange does (JSFunction f1) w))))))
           = invocations (snd (onSizeClassChange does (JSFunction f2)
               (resizes does earlier (snd (onSizeClassChange does (JSFunction f1) w))))) @ new
         \<and> (\<forall>(c, s) \<in> set new. c = f2)
         \<and> map_option callback
             (onresize (resizes does later (snd (onSizeClassChange does (JSFunction f2)
                (resizes does earlier (snd (onSizeClassChange does (JSFunction f1) w)))))))
             = Some f2))
   \<and> (fst (onSizeClassChange does (JSFunction f1) w) = Inr ()
      \<and> fst (onSizeClassChange does (JSFunction f2)
           (resizes does earlier (snd (onSizeClassChange does (JSFunction f1) w)))) \<noteq> Inr ()
    \<longrightarrow>
      (\<exists>new.
         invocations (resizes does later (snd (onSizeClassChange does (JSFunction f2)
            (resizes does earlier (snd (onSizeClassChange does (JSFunction f1) w))))))
           = invocations (snd (onSizeClassChange does (JSFunction f2)
               (resizes does earlier (snd (onSizeClassChange does (JSFunction f1) w))))) @ new
         \<and> (\<forall>(c, s) \<in> set new. c = f1)
         \<and> map_option callback
             (onresize (resizes does later (snd (onSizeClassChange does (JSFunction f2)
                (resizes does earlier (snd (onSizeClassChange does (JSFunction f1) w)))))))
             = Some f1))"
proof -
  let ?w1 = "snd (onSizeClassChange does (JSFunction f1) w)"
  let ?w2 = "resizes does earlier ?w1"
  let ?w3 = "snd (onSizeClassChange does (JSFunction f2) ?w2)"
  have second: "\<exists>new. invocations (resizes does later ?w3) = invocations ?w3 @ new
         \<and> (\<forall>(c, s) \<in> set new. c = f2)
         \<and> map_option callback (onresize (resizes does later ?w3)) = Some f2"
    if ok2: "fst (onSizeClassChange does (JSFunction f2) ?w2) = Inr ()"
  proof -
    have "map_option callback (onresize ?w3) = Some f2"
      by (simp add: registration_returned [OF ok2])
    from resizes_installed [OF this, of does later] show ?thesis
      by blast
  qed
  have first: "\<exists>new. invocations (resizes does later ?w3) = invocations ?w3 @ new
         \<and> (\<forall>(c, s) \<in> set new. c = f1)
         \<and> map_option callback (onresize (resizes does later ?w3)) = Some f1"
    if ok1: "fst (onSizeClassChange does (JSFunction f1) w) = Inr ()"
      and no2: "fst (onSizeClassChange does (JSFunction f2) ?w2) \<noteq> Inr ()"
  proof -
    have "map_option callback (onresize ?w1) = Some f1"
      by (simp add: registration_returned [OF ok1])
    from resizes_installed [OF this, of does earlier]
    have "map_option callback (onresize ?w2) = Some f1"
      by blast
    then have "map_option callback (onresize ?w3) = Some f1"
      by (simp add: registration_threw [OF no2])
    from resizes_installed [OF this, of does later] show ?thesis
      by blast
  qed
  from first second show ?thesis
    by blast
qed

theorem last_registration_wins_witness:
  "fst (onSizeClassChange returns (JSFunction 2)
          (resizes returns [Finite 700] (snd (onSizeClassChange returns (JSFunction 1) blankPage))))
     = Inr ()
   \<and> invocations (resizes returns [Finite 900, Finite 500]
        (snd (onSizeClassChange returns (JSFunction 2)
          (resizes returns [Finite 700] (snd (onSizeClassChange returns (JSFunction 1) blankPage))))))
     = [(1, Large), (1, Medium), (2, Medium)] @ [(2, Large), (2, Small)]
   \<and> fst (onSizeClassChange (throwsIn 2) (JSFunction 1) blankPage) = Inr ()
   \<and> fst (onSizeClassChange (throwsIn 2) (JSFunction 2)
          (resizes (throwsIn 2) [Finite 700]
             (snd (onSizeClassChange (throwsIn 2) (JSFunction 1) blankPage))))
     = Inl RangeError
   \<and> invocations (resizes (throwsIn 2) [Finite 900, Finite 500]
        (snd (onSizeClassChange (throwsIn 2) (JSFunction 2)
          (resizes (throwsIn 2) [Finite 700]
             (snd (onSizeClassChange (throwsIn 2) (JSFunction 1) blankPage))))))
     = [(1, Large), (1, Medium), (2, Medium)] @ [(1, Large), (1, Small)]"
  using last_registration_wins [of returns 2 "[Finite 700]" 1 blankPage "[Finite 900, Finite 500]"]
    last_registration_wins [of "throwsIn 2" 2 "[Finite 700]" 1 blankPage "[Finite 900, Finite 500]"]
  by (simp add: registration resize_def resizeHandler_def call_def getViewportSizeName_def
      returns_def throwsIn_def blankPage_def)

text \<open>
  C9. For a list of 8 URLs, \<open>generateGrid\<close> called twice in a row, or called on another page,
  returns grids of the same structure; the element objects of two grids are different
  objects, all created by the call that returned them, and the call changes nothing else
  on the page.
\<close>

theorem generateGrid_deterministic_fresh:
  "length imageUrls = 8 \<longrightarrow>
     (\<exists>g1 w1 g2 w2 g3 w3.
        generateGrid imageUrls sizeName w = (Inr g1, w1) \<and>
        generateGrid imageUrls sizeName w1 = (Inr g2, w2) \<and>
        generateGrid imageUrls sizeName v = (Inr g3, w3) \<and>
        shapeOf g1 = shapeOf g2 \<and> shapeOf g1 = shapeOf g3 \<and>
        nodeIds g1 \<inter> nodeIds g2 = {} \<and>
        (\<forall>i \<in> nodeIds g1. nextNode w \<le> i) \<and>
        w1 = w\<lparr>nextNode := nextNode w1\<rparr>)"
proof
  assume len: "length imageUrls = 8"
  from generateGrid_returns [OF len] obtain g1 w1 where
    r1: "generateGrid imageUrls sizeName w = (Inr g1, w1)"
    by blast
  from generateGrid_returns [OF len] obtain g2 w2 where
    r2: "generateGrid imageUrls sizeName w1 = (Inr g2, w2)"
    by blast
  from generateGrid_returns [OF len] obtain g3 w3 where
    r3: "generateGrid imageUrls sizeName v = (Inr g3, w3)"
    by blast
  from len obtain a b c d e f g h where u: "imageUrls = [a, b, c, d, e, f, g, h]"
    using length8 by blast
  from generateGrid_shape [of a b c d e f g h sizeName w w1] r1 r2
  have s12: "shapeOf g1 = shapeOf g2"
    unfolding u by simp
  from generateGrid_shape [of a b c d e f g h sizeName w v] r1 r3
  have s13: "shapeOf g1 = shapeOf g3"
    unfolding u by simp
  from generateGrid_fresh(1) [OF r1] generateGrid_fresh(1) [OF r2]
  have d: "nodeIds g1 \<inter> nodeIds g2 = {}"
    by fastforce
  from generateGrid_fresh(1) [OF r1] have lo: "\<forall>i \<in> nodeIds g1. nextNode w \<le> i"
    by fastforce
  from r1 r2 r3 s12 s13 d lo generateGrid_fresh(2) [OF r1]
  show "\<exists>g1 w1 g2 w2 g3 w3.
        generateGrid imageUrls sizeName w = (Inr g1, w1) \<and>
        generateGrid imageUrls sizeName w1 = (Inr g2, w2) \<and>
        generateGrid imageUrls sizeName v = (Inr g3, w3) \<and>
        shapeOf g1 = shapeOf g2 \<and> shapeOf g1 = shapeOf g3 \<and>
        nodeIds g1 \<inter> nodeIds g2 = {} \<and>
        (\<forall>i \<in> nodeIds g1. nextNode w \<le> i) \<and>
        w1 = w\<lparr>nextNode := nextNode w1\<rparr>"
    by blast
qed

theorem generateGrid_deterministic_fresh_witness:
  "length [''a'', ''b'', ''c'', ''d'', ''e'', ''f'', ''g'', ''h''] = 8
   \<and> (\<exists>g1 w1 g2 w2.
        generateGrid [''a'', ''b'', ''c'', ''d'', ''e'', ''f'', ''g'', ''h''] Large blankPage
          = (Inr g1, w1) \<and>
        generateGrid [''a'', ''b'', ''c'', ''d'', ''e'', ''f'', ''g'', ''h''] Large w1
          = (Inr g2, w2) \<and>
        shapeOf g1 = shapeOf g2 \<and> nodeIds g1 \<inter> nodeIds g2 = {})"
  using generateGrid_deterministic_fresh
    [of "[''a'', ''b'', ''c'', ''d'', ''e'', ''f'', ''g'', ''h'']" Large blankPage blankPage]
  by auto

text \<open>
  C10. Every width has exactly one size class, also zero, negative widths and widths that
  are not integers; every width of at most 600, negative ones included, is small.
\<close>

theorem getViewportSizeName_total:
  "(\<exists>!c. getViewportSizeName width = c)
   \<and> getViewportSizeName width \<in> {Small, Medium, Large}
   \<and> (number_le width (Finite 600) \<longrightarrow> getViewportSizeName width = Small)
   \<and> (r \<le> 600 \<longrightarrow> getViewportSizeName (Finite r) = Small)
   \<and> (r < 0 \<longrightarrow> getViewportSizeName (Finite r) = Small)
   \<and> getViewportSizeName (Finite 0) = Small
   \<and> getViewportSizeName (Finite (- 1)) = Small
   \<and> getViewportSizeName (Finite (1 / 2)) = Small
   \<and> getViewportSizeName NegInfinity = Small"
  by (cases "getViewportSizeName width") (auto simp: getViewportSizeName_def)

theorem getViewportSizeName_total_witness:
  "number_le (Finite (- 320)) (Finite 600) \<and> (- 320 :: real) \<le> 600 \<and> (- 320 :: real) < 0
   \<and> getViewportSizeName (Finite (- 320)) = Small"
  using getViewportSizeName_total [of "Finite (- 320)" "- 320"]
  by simp

end
